theory Spec2Isabelle
  imports Main
begin

section \<open>JavaScript values\<close>

text \<open>
  The program is one React component, \<^verbatim>\<open>ComponentTracker\<close> in \<^verbatim>\<open>src/App.js\<close>.
  Its data are JavaScript values that come from three places: the form, the persisted
  cache (\<^verbatim>\<open>JSON.parse\<close> of a stored string) and the remote endpoint
  (\<^verbatim>\<open>response.json()\<close>). None of them is typed, so the list of components is
  modelled as an arbitrary JSON value.

  Strings are lists of code units; \<open>char\<close> covers the code units below 256.
  \<open>JNum n\<close> stands for the Number with the integer value \<open>n\<close>: the numbers the
  program itself creates (\<^verbatim>\<open>Date.now()\<close>, \<^verbatim>\<open>parseInt(..) || 0\<close>) are of
  that kind. The rounding of integers of magnitude \<open>2^53\<close> and more to a double, and
  numbers with a fraction, are outside the model.
  An object is the list of its own properties in creation order, which is the order
  \<^verbatim>\<open>JSON.stringify\<close> writes them in.
\<close>

datatype jsvalue =
    JNull
  | JBool bool
  | JNum int
  | JStr string
  | JArr "jsvalue list"
  | JObj "(string \<times> jsvalue) list"

text \<open>Truthiness (\<^verbatim>\<open>ToBoolean\<close>), as \<^verbatim>\<open>data || []\<close> tests it.\<close>

fun truthy :: "jsvalue \<Rightarrow> bool" where
  "truthy JNull = False"
| "truthy (JBool b) = b"
| "truthy (JNum n) = (n \<noteq> 0)"
| "truthy (JStr s) = (s \<noteq> [])"
| "truthy (JArr xs) = True"
| "truthy (JObj kvs) = True"

text \<open>\<^verbatim>\<open>a || b\<close> on values.\<close>

definition js_or :: "jsvalue \<Rightarrow> jsvalue \<Rightarrow> jsvalue" where
  "js_or a b = (if truthy a then a else b)"

text \<open>
  The spread \<^verbatim>\<open>[...v]\<close>: an array gives its elements, a string its characters, and
  every other JSON value is not iterable, which raises a TypeError (\<open>None\<close>).
\<close>

fun spread :: "jsvalue \<Rightarrow> jsvalue list option" where
  "spread (JArr xs) = Some xs"
| "spread (JStr s) = Some (map (\<lambda>c. JStr [c]) s)"
| "spread v = None"

text \<open>
  Reading a property \<^verbatim>\<open>v.key\<close> of a value that is not null, for a key that no
  built-in prototype defines (the program reads \<^verbatim>\<open>name\<close>, \<^verbatim>\<open>quantity\<close> and
  \<^verbatim>\<open>dateAdded\<close>): an own property of an object, otherwise \<^verbatim>\<open>undefined\<close>
  (\<open>None\<close>).
\<close>

fun Get :: "jsvalue \<Rightarrow> string \<Rightarrow> jsvalue option" where
  "Get (JObj kvs) key = map_of kvs key"
| "Get v key = None"

section \<open>Strings and numbers\<close>

text \<open>\<^verbatim>\<open>Array.prototype.join\<close> on strings.\<close>

fun join :: "string \<Rightarrow> string list \<Rightarrow> string" where
  "join sep [] = []"
| "join sep [x] = x"
| "join sep (x # y # ys) = x @ sep @ join sep (y # ys)"

text \<open>\<^verbatim>\<open>String.prototype.split\<close> with a separator of one character.\<close>

fun split :: "char \<Rightarrow> string \<Rightarrow> string list" where
  "split sep [] = [[]]"
| "split sep (c # cs) =
     (if c = sep then [] # split sep cs
      else (case split sep cs of
              [] \<Rightarrow> [[c]]
            | p # ps \<Rightarrow> (c # p) # ps))"

text \<open>
  White space and line terminators among the code units below 256: tab, line feed,
  vertical tab, form feed, carriage return, space and no-break space.
\<close>

definition isWhiteSpace :: "char \<Rightarrow> bool" where
  "isWhiteSpace c \<longleftrightarrow>
     c = CHR 0x09 \<or> c = CHR 0x0A \<or> c = CHR 0x0B \<or> c = CHR 0x0C \<or> c = CHR 0x0D \<or>
     c = CHR 0x20 \<or> c = CHR 0xA0"

text \<open>\<^verbatim>\<open>String.prototype.trim\<close>.\<close>

definition trim :: "string \<Rightarrow> string" where
  "trim s = rev (dropWhile isWhiteSpace (rev (dropWhile isWhiteSpace s)))"

text \<open>The value of a digit in a radix, if it is one.\<close>

definition digitValue :: "char \<Rightarrow> nat option" where
  "digitValue c =
     (let k = of_char c :: nat in
      if 48 \<le> k \<and> k \<le> 57 then Some (k - 48)
      else if 97 \<le> k \<and> k \<le> 102 then Some (k - 87)
      else if 65 \<le> k \<and> k \<le> 70 then Some (k - 55)
      else None)"

definition isRadixDigit :: "nat \<Rightarrow> char \<Rightarrow> bool" where
  "isRadixDigit R c = (case digitValue c of None \<Rightarrow> False | Some d \<Rightarrow> d < R)"

text \<open>The integer that a string of radix-\<open>R\<close> digits denotes.\<close>

definition radixValue :: "nat \<Rightarrow> string \<Rightarrow> nat" where
  "radixValue R Z = foldl (\<lambda>acc c. acc * R + (case digitValue c of None \<Rightarrow> 0 | Some d \<Rightarrow> d)) 0 Z"

text \<open>
  \<^verbatim>\<open>parseInt(string)\<close> with no radix: leading white space is skipped, one sign is
  read, a prefix \<^verbatim>\<open>0x\<close> or \<^verbatim>\<open>0X\<close> selects radix 16 and radix 10 is used
  otherwise, and the longest run of digits is the number. \<open>None\<close> is \<^verbatim>\<open>NaN\<close>, the
  result when there is no digit.
\<close>

definition parseInt :: "string \<Rightarrow> int option" where
  "parseInt inputString =
     (let S = dropWhile isWhiteSpace inputString;
          sign = (if S \<noteq> [] \<and> hd S = CHR ''-'' then - 1 else 1 :: int);
          S1 = (if S \<noteq> [] \<and> (hd S = CHR ''+'' \<or> hd S = CHR ''-'') then tl S else S);
          hex = (take 2 S1 = ''0x'' \<or> take 2 S1 = ''0X'');
          R = (if hex then 16 else 10 :: nat);
          S2 = (if hex then drop 2 S1 else S1);
          Z = takeWhile (isRadixDigit R) S2
      in if Z = [] then None else Some (sign * int (radixValue R Z)))"

text \<open>\<^verbatim>\<open>n || 0\<close> on the result of \<^verbatim>\<open>parseInt\<close>: \<^verbatim>\<open>NaN\<close> and zero are falsy.\<close>

definition or_zero :: "int option \<Rightarrow> int" where
  "or_zero r = (case r of None \<Rightarrow> 0 | Some n \<Rightarrow> if n \<noteq> 0 then n else 0)"

text \<open>The decimal digits of a natural number.\<close>

fun digits :: "nat \<Rightarrow> string" where
  "digits n =
     (if n < 10 then [''0123456789'' ! n]
      else digits (n div 10) @ [''0123456789'' ! (n mod 10)])"

declare digits.simps [simp del]

text \<open>
  \<^verbatim>\<open>Number::toString\<close> of an integer (the decimal form, which JavaScript uses for
  magnitudes below \<open>10^21\<close>).
\<close>

definition Number_toString :: "int \<Rightarrow> string" where
  "Number_toString n = (if n < 0 then CHR ''-'' # digits (nat (- n)) else digits (nat n))"

text \<open>
  \<^verbatim>\<open>ToString\<close> of a JSON value, as a template literal applies it. An array is
  joined with commas, null elements giving the empty string. An object gives
  \<^verbatim>\<open>[object Object]\<close>, unless it has an own property \<^verbatim>\<open>toString\<close>: that
  property is not callable, and the conversion raises a TypeError (\<open>None\<close>).
\<close>

fun ToString :: "jsvalue \<Rightarrow> string option" where
  "ToString JNull = Some ''null''"
| "ToString (JBool b) = Some (if b then ''true'' else ''false'')"
| "ToString (JNum n) = Some (Number_toString n)"
| "ToString (JStr s) = Some s"
| "ToString (JArr xs) =
     map_option (join '','')
       (those (map (\<lambda>x. if x = JNull then Some [] else ToString x) xs))"
| "ToString (JObj kvs) =
     (if ''toString'' \<in> fst ` set kvs then None else Some ''[object Object]'')"

text \<open>A substitution \<^verbatim>\<open>${e}\<close> of a template literal; \<open>None\<close> as input is \<^verbatim>\<open>undefined\<close>.\<close>

definition subst :: "jsvalue option \<Rightarrow> string option" where
  "subst v = (case v of None \<Rightarrow> Some ''undefined'' | Some x \<Rightarrow> ToString x)"

section \<open>JSON.stringify\<close>

text \<open>A hexadecimal digit, for a value below 16.\<close>

definition hexDigit :: "nat \<Rightarrow> char" where
  "hexDigit d = ''0123456789abcdef'' ! d"

text \<open>The escape of one code unit inside a JSON string.\<close>

definition escapeChar :: "char \<Rightarrow> string" where
  "escapeChar c =
     (let k = of_char c :: nat in
      if c = CHR 0x22 then [CHR 0x5C, CHR 0x22]
      else if c = CHR 0x5C then [CHR 0x5C, CHR 0x5C]
      else if c = CHR 0x08 then [CHR 0x5C, CHR ''b'']
      else if c = CHR 0x09 then [CHR 0x5C, CHR ''t'']
      else if c = CHR 0x0A then [CHR 0x5C, CHR ''n'']
      else if c = CHR 0x0C then [CHR 0x5C, CHR ''f'']
      else if c = CHR 0x0D then [CHR 0x5C, CHR ''r'']
      else if k < 32 then [CHR 0x5C, CHR ''u'', CHR ''0'', CHR ''0'', hexDigit (k div 16), hexDigit (k mod 16)]
      else [c])"

definition QuoteJSONString :: "string \<Rightarrow> string" where
  "QuoteJSONString s = CHR 0x22 # concat (map escapeChar s) @ [CHR 0x22]"

fun JSON_stringify :: "jsvalue \<Rightarrow> string" where
  "JSON_stringify JNull = ''null''"
| "JSON_stringify (JBool b) = (if b then ''true'' else ''false'')"
| "JSON_stringify (JNum n) = Number_toString n"
| "JSON_stringify (JStr s) = QuoteJSONString s"
| "JSON_stringify (JArr xs) = ''['' @ join '','' (map JSON_stringify xs) @ '']''"
| "JSON_stringify (JObj kvs) =
     ''{'' @ join '','' (map (\<lambda>(k, v). QuoteJSONString k @ '':'' @ JSON_stringify v) kvs) @ ''}''"

section \<open>The component's state and its environment\<close>

text \<open>
  A request handed to \<^verbatim>\<open>fetch\<close>. The startup read passes the URL only; the
  push passes method (the field \<open>http_method\<close>), headers, body and mode.
\<close>

record request =
  url :: string
  http_method :: "string option"
  headers :: "(string \<times> string) list"
  body :: "string option"
  mode :: "string option"

text \<open>
  The seven \<^verbatim>\<open>useState\<close> cells of the component, and the parts of the browser
  that it reads and writes: \<^verbatim>\<open>localStorage\<close>, the console and the requests it
  has issued. A write to \<^verbatim>\<open>localStorage\<close> is taken to succeed.
\<close>

record state =
  componentName :: string
  quantity :: string
  components :: jsvalue
  showList :: bool
  isSending :: bool
  isLoading :: bool
  isSyncing :: bool
  localStorage :: "string \<rightharpoonup> string"
  console :: "string list"
  requests :: "request list"

definition SHEET_URL :: string where
  "SHEET_URL = ''https://script.google.com/macros/s/AKfycbytbR7fbIgZfEPeWfs2bHZG9W9tQOHwEfz77pDuUVRAz2Wm1LcNm4s0Kxivf4rD-hZN1Q/exec''"

text \<open>The state of the first render, over a given content of \<^verbatim>\<open>localStorage\<close>.\<close>

definition initial :: "(string \<rightharpoonup> string) \<Rightarrow> state" where
  "initial storage =
     \<lparr>componentName = [], quantity = [], components = JArr [], showList = False,
      isSending = False, isLoading = False, isSyncing = False,
      localStorage = storage, console = [], requests = []\<rparr>"

text \<open>
  How a call of an \<^verbatim>\<open>async\<close> function stands when control comes back to the
  event loop: it returned, it is suspended at an \<^verbatim>\<open>await\<close>, or it threw (its
  promise is rejected).
\<close>

datatype completion = Returned | Suspended | Thrown

section \<open>Startup: the cache, then the background fetch\<close>

text \<open>
  The first half of the effect (lines 17 to 29). \<^verbatim>\<open>JSON.parse\<close> is the
  parameter \<open>parse\<close>, with \<open>None\<close> for a SyntaxError. The empty string is
  falsy, so it is treated like a missing entry and never parsed.
\<close>

definition loadCache :: "(string \<Rightarrow> jsvalue option) \<Rightarrow> state \<Rightarrow> state" where
  "loadCache parse s =
     (case localStorage s ''components'' of
        None \<Rightarrow> s\<lparr>isLoading := False\<rparr>
      | Some cachedData \<Rightarrow>
          if cachedData \<noteq> [] then
            (case parse cachedData of
               Some parsedData \<Rightarrow> s\<lparr>components := parsedData, isLoading := False\<rparr>
             | None \<Rightarrow>
                 s\<lparr>console := console s @ [''Error parsing cached data:''],
                   isLoading := False\<rparr>)
          else s\<lparr>isLoading := False\<rparr>)"

text \<open>
  \<^verbatim>\<open>syncWithGoogleSheets\<close> up to its first \<^verbatim>\<open>await\<close>: the flag is set and the
  request is issued.
\<close>

definition syncWithGoogleSheets :: "state \<Rightarrow> completion \<times> state" where
  "syncWithGoogleSheets s =
     (Suspended,
      s\<lparr>isSyncing := True,
        requests := requests s @
          [\<lparr>url = SHEET_URL, http_method = None, headers = [], body = None, mode = None\<rparr>]\<rparr>)"

text \<open>
  What the two awaited promises of the fetch deliver: \<^verbatim>\<open>fetch\<close> rejects (network
  error), \<^verbatim>\<open>response.json()\<close> rejects (the body is not JSON), or the payload.
\<close>

datatype fetch_outcome = FetchRejected | JsonRejected | JsonResolved jsvalue

text \<open>
  \<^verbatim>\<open>syncWithGoogleSheets\<close> from the \<^verbatim>\<open>await\<close> on, run on the state of that
  later moment: the \<^verbatim>\<open>try\<close> body on a payload, the \<^verbatim>\<open>catch\<close> block on a
  rejection, and \<^verbatim>\<open>finally\<close> in both cases.
\<close>

definition syncWithGoogleSheets_resume :: "fetch_outcome \<Rightarrow> state \<Rightarrow> completion \<times> state" where
  "syncWithGoogleSheets_resume outcome s =
     (case outcome of
        JsonResolved data \<Rightarrow>
          (Returned,
           s\<lparr>components := js_or data (JArr []),
             localStorage := (localStorage s)(''components'' \<mapsto> JSON_stringify (js_or data (JArr []))),
             isSyncing := False\<rparr>)
      | _ \<Rightarrow>
          (Returned,
           s\<lparr>console := console s @ [''Error syncing with Google Sheets:''],
             isSyncing := False\<rparr>))"

text \<open>The effect that runs once after the first render.\<close>

definition useEffect :: "(string \<Rightarrow> jsvalue option) \<Rightarrow> state \<Rightarrow> completion \<times> state" where
  "useEffect parse s = syncWithGoogleSheets (loadCache parse s)"

section \<open>Export\<close>

text \<open>
  What \<^verbatim>\<open>exportToCSV\<close> does to the outside: an alert, a download of a file with a
  name and a content, or a TypeError.
\<close>

datatype export_result = Alert string | Download string string | TypeError

text \<open>
  One row, the template literal of line 61. Reading a property of \<^verbatim>\<open>null\<close>
  raises a TypeError.
\<close>

definition csvRow :: "jsvalue \<Rightarrow> string option" where
  "csvRow c =
     (if c = JNull then None
      else
        (case subst (Get c ''name'') of None \<Rightarrow> None | Some n \<Rightarrow>
        (case subst (Get c ''quantity'') of None \<Rightarrow> None | Some q \<Rightarrow>
        (case subst (Get c ''dateAdded'') of None \<Rightarrow> None | Some d \<Rightarrow>
           Some ([CHR 0x22] @ n @ [CHR 0x22] @ '','' @ q @ '','' @ [CHR 0x22] @ d @ [CHR 0x22])))))"

definition csvHeaders :: "string list" where
  "csvHeaders = [''Component Name/Part No'', ''Quantity'', ''Date Added'']"

text \<open>
  The name of the downloaded file; \<open>isoString\<close> is what
  \<^verbatim>\<open>new Date().toISOString()\<close> returns.
\<close>

definition downloadName :: "string \<Rightarrow> string" where
  "downloadName isoString =
     ''components-'' @
     (case split CHR ''T'' isoString of [] \<Rightarrow> ''undefined'' | d # _ \<Rightarrow> d) @ ''.csv''"

text \<open>
  Reading \<^verbatim>\<open>v.length\<close>: it raises a TypeError on \<^verbatim>\<open>null\<close> (\<open>None\<close>), it is
  the number of elements of an array and of code units of a string, an own property of an
  object if there is one, and \<^verbatim>\<open>undefined\<close> otherwise.
\<close>

definition Get_length :: "jsvalue \<Rightarrow> jsvalue option option" where
  "Get_length v =
     (case v of
        JNull \<Rightarrow> None
      | JArr cs \<Rightarrow> Some (Some (JNum (int (length cs))))
      | JStr str \<Rightarrow> Some (Some (JNum (int (length str))))
      | _ \<Rightarrow> Some (Get v ''length''))"

text \<open>
  \<^verbatim>\<open>exportToCSV\<close>. The test of line 52 is a strict comparison of
  \<^verbatim>\<open>components.length\<close> with \<open>0\<close>. After it, \<^verbatim>\<open>components.map\<close> is a
  function on an array only; calling it on any other value raises a TypeError.
\<close>

definition exportToCSV :: "string \<Rightarrow> state \<Rightarrow> export_result" where
  "exportToCSV isoString s =
     (case Get_length (components s) of
        None \<Rightarrow> TypeError
      | Some len \<Rightarrow>
          if len = Some (JNum 0) then Alert ''No components to export''
          else
            (case components s of
               JArr cs \<Rightarrow>
                 (case those (map csvRow cs) of
                    None \<Rightarrow> TypeError
                  | Some rows \<Rightarrow>
                      Download (downloadName isoString)
                        (join [CHR 0x0A] (join '','' csvHeaders # rows)))
             | _ \<Rightarrow> TypeError))"

section \<open>Submission\<close>

text \<open>
  The record of lines 78 to 83; \<open>now\<close> is \<^verbatim>\<open>Date.now()\<close> and \<open>today\<close> is
  \<^verbatim>\<open>new Date().toLocaleDateString()\<close>.
\<close>

definition newComponent :: "int \<Rightarrow> string \<Rightarrow> state \<Rightarrow> jsvalue" where
  "newComponent now today s =
     JObj [(''id'', JNum now),
           (''name'', JStr (trim (componentName s))),
           (''quantity'', JNum (or_zero (parseInt (quantity s)))),
           (''dateAdded'', JStr today)]"

text \<open>
  The object of lines 103 to 107, which becomes the body of the POST: the three
  properties read from the new record (\<^verbatim>\<open>JSON.stringify\<close> leaves out a property
  whose value is \<^verbatim>\<open>undefined\<close>).
\<close>

definition postBody :: "jsvalue \<Rightarrow> jsvalue" where
  "postBody c =
     JObj (List.map_filter
             (\<lambda>k. map_option (Pair k) (Get c k)) [''name'', ''quantity'', ''dateAdded''])"

text \<open>The validation of line 75.\<close>

definition accepts :: "state \<Rightarrow> bool" where
  "accepts s \<longleftrightarrow> trim (componentName s) \<noteq> [] \<and> trim (quantity s) \<noteq> [] \<and> \<not> isSending s"

text \<open>
  \<^verbatim>\<open>handleSend\<close> up to its \<^verbatim>\<open>await\<close>. The state setters of lines 76, 86 and 87
  have run when the spread of line 90 is evaluated, so they stay when it throws.
\<close>

definition handleSend :: "int \<Rightarrow> string \<Rightarrow> state \<Rightarrow> completion \<times> state" where
  "handleSend now today s =
     (if accepts s then
        (let c = newComponent now today s;
             s1 = s\<lparr>isSending := True, componentName := [], quantity := []\<rparr>
         in case spread (components s) of
              None \<Rightarrow> (Thrown, s1)
            | Some cs \<Rightarrow>
                (let updatedComponents = JArr (cs @ [c])
                 in (Suspended,
                     s1\<lparr>components := updatedComponents,
                        localStorage :=
                          (localStorage s)(''components'' \<mapsto> JSON_stringify updatedComponents),
                        requests := requests s @
                          [\<lparr>url = SHEET_URL, http_method = Some ''POST'',
                            headers = [(''Content-Type'', ''application/json'')],
                            body = Some (JSON_stringify (postBody c)),
                            mode = Some ''no-cors''\<rparr>]\<rparr>)))
      else (Returned, s))"

text \<open>
  \<^verbatim>\<open>handleSend\<close> after the \<^verbatim>\<open>await\<close>: a rejected \<^verbatim>\<open>fetch\<close> is logged, and
  the flag is cleared.
\<close>

definition handleSend_resume :: "bool \<Rightarrow> state \<Rightarrow> completion \<times> state" where
  "handleSend_resume rejected s =
     (Returned,
      (if rejected then s\<lparr>console := console s @ [''Google Sheet updated (no-cors mode)'']\<rparr> else s)
        \<lparr>isSending := False\<rparr>)"

section \<open>Sessions\<close>

text \<open>
  What can happen to the mounted component: the user edits a field, toggles the list or
  clicks Send (at a time and date), and a pending request settles.
\<close>

datatype event =
    ChangeName string
  | ChangeQuantity string
  | ToggleList
  | ClickSend int string
  | SendSettled bool
  | SyncSettled fetch_outcome

fun step :: "event \<Rightarrow> state \<Rightarrow> state" where
  "step (ChangeName v) s = s\<lparr>componentName := v\<rparr>"
| "step (ChangeQuantity v) s = s\<lparr>quantity := v\<rparr>"
| "step ToggleList s = s\<lparr>showList := \<not> showList s\<rparr>"
| "step (ClickSend now today) s = snd (handleSend now today s)"
| "step (SendSettled rejected) s = snd (handleSend_resume rejected s)"
| "step (SyncSettled outcome) s = snd (syncWithGoogleSheets_resume outcome s)"

text \<open>A session: the events in the order they are handled.\<close>

fun run :: "event list \<Rightarrow> state \<Rightarrow> state" where
  "run [] s = s"
| "run (e # es) s = run es (step e s)"

text \<open>The records that the submissions of a session create, in order.\<close>

fun created :: "event list \<Rightarrow> state \<Rightarrow> jsvalue list" where
  "created [] s = []"
| "created (ClickSend now today # es) s =
     (if accepts s then [newComponent now today s] else []) @
     created es (step (ClickSend now today) s)"
| "created (e # es) s = created es (step e s)"

text \<open>The values of \<^verbatim>\<open>Date.now()\<close> at the clicks on Send of a session, in order.\<close>

fun clickTimes :: "event list \<Rightarrow> int list" where
  "clickTimes [] = []"
| "clickTimes (ClickSend now today # es) = now # clickTimes es"
| "clickTimes (e # es) = clickTimes es"

section \<open>Submission: what an accepted and a rejected click do\<close>

text \<open>
  Claim C1. In every state whose trimmed name and trimmed quantity are not empty, in
  which no send is in flight, and whose components are a list \<open>cs\<close>,
  \<^verbatim>\<open>handleSend\<close> appends exactly one record to the in-memory list and writes the JSON
  text of the longer list under the key \<^verbatim>\<open>components\<close>. The record holds the
  trimmed name, the parsed quantity and today's date, and both form fields are reset to
  the empty string.
\<close>

theorem handleSend_appends:
  assumes "trim (componentName s) \<noteq> []" and "trim (quantity s) \<noteq> []"
    and "\<not> isSending s" and "components s = JArr cs"
  shows "newComponent now today s =
           JObj [(''id'', JNum now), (''name'', JStr (trim (componentName s))),
                 (''quantity'', JNum (or_zero (parseInt (quantity s)))),
                 (''dateAdded'', JStr today)] \<and>
         components (snd (handleSend now today s)) = JArr (cs @ [newComponent now today s]) \<and>
         localStorage (snd (handleSend now today s)) ''components'' =
           Some (JSON_stringify (JArr (cs @ [newComponent now today s]))) \<and>
         componentName (snd (handleSend now today s)) = [] \<and>
         quantity (snd (handleSend now today s)) = []"
  using assms by (simp add: handleSend_def accepts_def newComponent_def Let_def)

text \<open>
  The spec's example: name \<^verbatim>\<open>R2\<close> and quantity \<^verbatim>\<open>3\<close>, submitted over an empty
  list.
\<close>

theorem handleSend_appends_witness:
  \<open>trim ''R2'' \<noteq> [] \<and> trim ''3'' \<noteq> [] \<and>
   components (snd (handleSend 1700000000000 ''11/3/2026''
     ((initial Map.empty)\<lparr>componentName := ''R2'', quantity := ''3''\<rparr>))) =
     JArr [JObj [(''id'', JNum 1700000000000), (''name'', JStr ''R2''),
                 (''quantity'', JNum 3), (''dateAdded'', JStr ''11/3/2026'')]] \<and>
   localStorage (snd (handleSend 1700000000000 ''11/3/2026''
     ((initial Map.empty)\<lparr>componentName := ''R2'', quantity := ''3''\<rparr>))) ''components'' =
     Some ''[{"id":1700000000000,"name":"R2","quantity":3,"dateAdded":"11/3/2026"}]'' \<and>
   componentName (snd (handleSend 1700000000000 ''11/3/2026''
     ((initial Map.empty)\<lparr>componentName := ''R2'', quantity := ''3''\<rparr>))) = [] \<and>
   quantity (snd (handleSend 1700000000000 ''11/3/2026''
     ((initial Map.empty)\<lparr>componentName := ''R2'', quantity := ''3''\<rparr>))) = []\<close>
proof -
  let ?s = "(initial Map.empty)\<lparr>componentName := ''R2'', quantity := ''3''\<rparr>"
  have name: "trim (componentName ?s) \<noteq> []"
    by (simp add: trim_def isWhiteSpace_def)
  have qty: "trim (quantity ?s) \<noteq> []"
    by (simp add: trim_def isWhiteSpace_def)
  have idle: "\<not> isSending ?s"
    by (simp add: initial_def)
  have list: "components ?s = JArr []"
    by (simp add: initial_def)
  have parsed: "or_zero (parseInt ''3'') = 3"
    by (simp add: parseInt_def or_zero_def isWhiteSpace_def isRadixDigit_def digitValue_def
        radixValue_def)
  have trimmed: "trim ''R2'' = ''R2''"
    by (simp add: trim_def isWhiteSpace_def)
  show ?thesis
    using handleSend_appends [OF name qty idle list, of 1700000000000 "''11/3/2026''"]
      name qty
    by (simp add: parsed trimmed Number_toString_def digits.simps QuoteJSONString_def
        escapeChar_def)
qed

text \<open>
  Claim C5. When the trimmed name is empty, or the trimmed quantity is empty, or a send
  is in flight, \<^verbatim>\<open>handleSend\<close> returns with the whole state as it was: the list, the
  persisted cache, the form fields and the list of issued requests.
\<close>

theorem handleSend_rejected:
  assumes "trim (componentName s) = [] \<or> trim (quantity s) = [] \<or> isSending s"
  shows "handleSend now today s = (Returned, s)"
  using assms by (auto simp add: handleSend_def accepts_def)

text \<open>A name of blanks only, with a quantity filled in.\<close>

theorem handleSend_rejected_witness:
  "trim (componentName ((initial Map.empty)\<lparr>componentName := ''  '', quantity := ''3''\<rparr>)) = [] \<and>
   handleSend 1700000000000 ''11/3/2026''
     ((initial Map.empty)\<lparr>componentName := ''  '', quantity := ''3''\<rparr>) =
     (Returned, (initial Map.empty)\<lparr>componentName := ''  '', quantity := ''3''\<rparr>)"
proof -
  let ?s = "(initial Map.empty)\<lparr>componentName := ''  '', quantity := ''3''\<rparr>"
  have blank: "trim (componentName ?s) = []"
    by (simp add: trim_def isWhiteSpace_def)
  then have "trim (componentName ?s) = [] \<or> trim (quantity ?s) = [] \<or> isSending ?s"
    by (rule disjI1)
  from handleSend_rejected [OF this] blank show ?thesis
    by blast
qed

section \<open>The background fetch: success and failure\<close>

text \<open>
  Claim C2. When the background fetch resolves with a payload, the in-memory list and
  the entry \<^verbatim>\<open>components\<close> of the cache are replaced by the payload when it is a
  list, and by the empty list when it is \<^verbatim>\<open>null\<close>, whatever the state held at that
  moment (the state \<open>s\<close> is arbitrary, so it may hold an optimistic add made after the
  fetch was issued).
\<close>

theorem sync_success_replaces:
  "components (snd (syncWithGoogleSheets_resume (JsonResolved (JArr ps)) s)) = JArr ps \<and>
   localStorage (snd (syncWithGoogleSheets_resume (JsonResolved (JArr ps)) s)) ''components'' =
     Some (JSON_stringify (JArr ps)) \<and>
   components (snd (syncWithGoogleSheets_resume (JsonResolved JNull) s)) = JArr [] \<and>
   localStorage (snd (syncWithGoogleSheets_resume (JsonResolved JNull) s)) ''components'' =
     Some (JSON_stringify (JArr []))"
  by (simp add: syncWithGoogleSheets_resume_def js_or_def)

text \<open>
  A session in which \<^verbatim>\<open>R2\<close> is submitted while the fetch is pending; the fetch then
  delivers the one remote record \<^verbatim>\<open>R1\<close>, and \<^verbatim>\<open>R2\<close> is gone from the list and
  from the cache.
\<close>

theorem sync_success_replaces_witness:
  \<open>components
     (run [ChangeName ''R2'', ChangeQuantity ''3'', ClickSend 1700000000000 ''11/3/2026'',
           SyncSettled (JsonResolved (JArr [JObj [(''name'', JStr ''R1''), (''quantity'', JNum 5),
                                                   (''dateAdded'', JStr ''1/1/24'')]]))]
        (snd (useEffect Map.empty (initial Map.empty)))) =
     JArr [JObj [(''name'', JStr ''R1''), (''quantity'', JNum 5), (''dateAdded'', JStr ''1/1/24'')]] \<and>
   localStorage
     (run [ChangeName ''R2'', ChangeQuantity ''3'', ClickSend 1700000000000 ''11/3/2026'',
           SyncSettled (JsonResolved (JArr [JObj [(''name'', JStr ''R1''), (''quantity'', JNum 5),
                                                   (''dateAdded'', JStr ''1/1/24'')]]))]
        (snd (useEffect Map.empty (initial Map.empty)))) ''components'' =
     Some ''[{"name":"R1","quantity":5,"dateAdded":"1/1/24"}]''\<close>
  using sync_success_replaces
    [of "[JObj [(''name'', JStr ''R1''), (''quantity'', JNum 5), (''dateAdded'', JStr ''1/1/24'')]]"
        "run [ChangeName ''R2'', ChangeQuantity ''3'', ClickSend 1700000000000 ''11/3/2026'']
           (snd (useEffect Map.empty (initial Map.empty)))"]
  by (simp add: Number_toString_def digits.simps QuoteJSONString_def escapeChar_def)

text \<open>
  Claim C3. When the background fetch fails, by a network error or by a body that is not
  JSON, the in-memory list and the persisted cache are what they were, the failure is
  written to the console and nowhere else, and the function returns without throwing.
\<close>

theorem sync_failure_keeps:
  assumes "outcome = FetchRejected \<or> outcome = JsonRejected"
  shows "fst (syncWithGoogleSheets_resume outcome s) = Returned \<and>
         components (snd (syncWithGoogleSheets_resume outcome s)) = components s \<and>
         localStorage (snd (syncWithGoogleSheets_resume outcome s)) = localStorage s \<and>
         console (snd (syncWithGoogleSheets_resume outcome s)) =
           console s @ [''Error syncing with Google Sheets:''] \<and>
         componentName (snd (syncWithGoogleSheets_resume outcome s)) = componentName s \<and>
         quantity (snd (syncWithGoogleSheets_resume outcome s)) = quantity s \<and>
         requests (snd (syncWithGoogleSheets_resume outcome s)) = requests s"
  using assms by (auto simp add: syncWithGoogleSheets_resume_def)

text \<open>No cached data and a failing fetch: the list stays empty and nothing is thrown.\<close>

theorem sync_failure_keeps_witness:
  "components (snd (syncWithGoogleSheets_resume FetchRejected
      (snd (useEffect Map.empty (initial Map.empty))))) = JArr [] \<and>
   localStorage (snd (syncWithGoogleSheets_resume FetchRejected
      (snd (useEffect Map.empty (initial Map.empty))))) = Map.empty \<and>
   fst (syncWithGoogleSheets_resume FetchRejected
      (snd (useEffect Map.empty (initial Map.empty)))) = Returned"
proof -
  have failed: "FetchRejected = FetchRejected \<or> FetchRejected = JsonRejected"
    by simp
  from sync_failure_keeps [OF failed, of "snd (useEffect Map.empty (initial Map.empty))"]
  show ?thesis
    by (simp add: useEffect_def syncWithGoogleSheets_def loadCache_def initial_def)
qed

section \<open>The cache and the list are written together\<close>

lemma send_R2_suspended:
  "fst (handleSend 1700000000000 ''11/3/2026''
     ((initial Map.empty)\<lparr>componentName := ''R2'', quantity := ''3''\<rparr>)) = Suspended"
  by (simp add: handleSend_def accepts_def Let_def initial_def trim_def isWhiteSpace_def)

text \<open>
  Claim C9. After a fetch that delivered a payload, and after a submission that passed
  the validation and reached its request (the call is suspended at the \<^verbatim>\<open>await\<close>),
  the entry \<^verbatim>\<open>components\<close> of the cache is the JSON text of the in-memory list.
\<close>

theorem cache_follows_list:
  "localStorage (snd (syncWithGoogleSheets_resume (JsonResolved data) s)) ''components'' =
     Some (JSON_stringify (components (snd (syncWithGoogleSheets_resume (JsonResolved data) s)))) \<and>
   (fst (handleSend now today s) = Suspended \<longrightarrow>
    localStorage (snd (handleSend now today s)) ''components'' =
      Some (JSON_stringify (components (snd (handleSend now today s)))))"
  by (simp add: syncWithGoogleSheets_resume_def handleSend_def Let_def split: option.splits)

theorem cache_follows_list_witness:
  "fst (handleSend 1700000000000 ''11/3/2026''
     ((initial Map.empty)\<lparr>componentName := ''R2'', quantity := ''3''\<rparr>)) = Suspended \<and>
   localStorage (snd (handleSend 1700000000000 ''11/3/2026''
     ((initial Map.empty)\<lparr>componentName := ''R2'', quantity := ''3''\<rparr>))) ''components'' =
     Some (JSON_stringify (components (snd (handleSend 1700000000000 ''11/3/2026''
       ((initial Map.empty)\<lparr>componentName := ''R2'', quantity := ''3''\<rparr>)))))"
  using send_R2_suspended
    cache_follows_list [of JNull "(initial Map.empty)\<lparr>componentName := ''R2'', quantity := ''3''\<rparr>"
      1700000000000 "''11/3/2026''"]
  by blast

section \<open>What is pushed to the remote endpoint\<close>

text \<open>
  Claim C10. A submission that reaches its request issues exactly one POST, whose body is
  the JSON text of an object with the three properties \<^verbatim>\<open>name\<close>, \<^verbatim>\<open>quantity\<close>
  and \<^verbatim>\<open>dateAdded\<close> of the new record, in that order. The identifier is not among
  them: the request is the same whatever \<^verbatim>\<open>Date.now()\<close> returned.
\<close>

theorem post_body_fields:
  assumes "fst (handleSend now today s) = Suspended"
  shows "requests (snd (handleSend now today s)) =
           requests s @
           [\<lparr>url = SHEET_URL, http_method = Some ''POST'',
             headers = [(''Content-Type'', ''application/json'')],
             body = Some (JSON_stringify
                      (JObj [(''name'', JStr (trim (componentName s))),
                             (''quantity'', JNum (or_zero (parseInt (quantity s)))),
                             (''dateAdded'', JStr today)])),
             mode = Some ''no-cors''\<rparr>] \<and>
         requests (snd (handleSend now' today s)) = requests (snd (handleSend now today s))"
  using assms
  by (simp add: handleSend_def Let_def newComponent_def postBody_def List.map_filter_simps
      split: option.splits if_splits)

theorem post_body_fields_witness:
  \<open>fst (handleSend 1700000000000 ''11/3/2026''
     ((initial Map.empty)\<lparr>componentName := ''R2'', quantity := ''3''\<rparr>)) = Suspended \<and>
   map body (requests (snd (handleSend 1700000000000 ''11/3/2026''
     ((initial Map.empty)\<lparr>componentName := ''R2'', quantity := ''3''\<rparr>)))) =
     [Some ''{"name":"R2","quantity":3,"dateAdded":"11/3/2026"}'']\<close>
proof -
  have parsed: "or_zero (parseInt ''3'') = 3"
    by (simp add: parseInt_def or_zero_def isWhiteSpace_def isRadixDigit_def digitValue_def
        radixValue_def)
  have trimmed: "trim ''R2'' = ''R2''"
    by (simp add: trim_def isWhiteSpace_def)
  from post_body_fields [OF send_R2_suspended] send_R2_suspended show ?thesis
    by (simp add: parsed trimmed initial_def Number_toString_def digits.simps
        QuoteJSONString_def escapeChar_def)
qed

section \<open>Startup: reading the cache\<close>

text \<open>
  Claim C8. At startup the list is what \<^verbatim>\<open>JSON.parse\<close> makes of the blob stored
  under \<^verbatim>\<open>components\<close> when the blob is well-formed JSON, and the empty list when
  there is no blob or when the blob is malformed. \<open>loadCache\<close> is a total function on
  states: a malformed blob ends in the \<^verbatim>\<open>catch\<close> block, which writes to the console.
  The hypothesis records that \<^verbatim>\<open>JSON.parse\<close> rejects the empty string, which the
  code does not hand to it.
\<close>

theorem loadCache_recovers:
  assumes "parse [] = None"
  shows "(storage ''components'' = None \<longrightarrow>
            loadCache parse (initial storage) = initial storage) \<and>
         (\<forall>blob. storage ''components'' = Some blob \<and> parse blob = None \<longrightarrow>
            components (loadCache parse (initial storage)) = JArr []) \<and>
         (\<forall>blob v. storage ''components'' = Some blob \<and> parse blob = Some v \<longrightarrow>
            components (loadCache parse (initial storage)) = v)"
  using assms by (auto simp add: loadCache_def initial_def)

text \<open>
  A stand-in for \<^verbatim>\<open>JSON.parse\<close> that knows one well-formed text, tried on that
  text, on a truncated text and on an empty storage.
\<close>

theorem loadCache_recovers_witness:
  \<open>[''[{"name":"R1"}]'' \<mapsto> JArr [JObj [(''name'', JStr ''R1'')]]] [] = None \<and>
   components (loadCache [''[{"name":"R1"}]'' \<mapsto> JArr [JObj [(''name'', JStr ''R1'')]]]
      (initial [''components'' \<mapsto> ''[{"name":"R1"}]''])) = JArr [JObj [(''name'', JStr ''R1'')]] \<and>
   components (loadCache [''[{"name":"R1"}]'' \<mapsto> JArr [JObj [(''name'', JStr ''R1'')]]]
      (initial [''components'' \<mapsto> ''[{"name":''])) = JArr [] \<and>
   components (loadCache [''[{"name":"R1"}]'' \<mapsto> JArr [JObj [(''name'', JStr ''R1'')]]]
      (initial Map.empty)) = JArr []\<close>
proof -
  let ?parse = \<open>[''[{"name":"R1"}]'' \<mapsto> JArr [JObj [(''name'', JStr ''R1'')]]]\<close>
  have empty: "?parse [] = None" by simp
  
  have a: \<open>components (loadCache ?parse (initial [''components'' \<mapsto> ''[{"name":"R1"}]''])) = JArr [JObj [(''name'', JStr ''R1'')]]\<close>
    using loadCache_recovers [where parse = ?parse and storage = \<open>[''components'' \<mapsto> ''[{"name":"R1"}]'']\<close>, OF empty] by simp
  have b: \<open>components (loadCache ?parse (initial [''components'' \<mapsto> ''[{"name":''])) = JArr []\<close>
    using loadCache_recovers [where parse = ?parse and storage = \<open>[''components'' \<mapsto> ''[{"name":'']\<close>, OF empty] by simp
  have c: \<open>components (loadCache ?parse (initial Map.empty)) = JArr []\<close>
    using loadCache_recovers [where parse = ?parse and storage = Map.empty, OF empty] by (simp add: initial_def)
  from empty a b c show ?thesis by blast
qed

section \<open>The stored quantity\<close>

lemma parseInt_sign:
  "(take 1 (dropWhile isWhiteSpace q) \<noteq> ''-'' \<longrightarrow> 0 \<le> or_zero (parseInt q)) \<and>
   (take 1 (dropWhile isWhiteSpace q) = ''-'' \<longrightarrow> or_zero (parseInt q) \<le> 0)"
proof -
  define S where "S = dropWhile isWhiteSpace q"
  show ?thesis
    unfolding parseInt_def Let_def S_def [symmetric]
    by (cases S) (auto simp add: or_zero_def)
qed

lemma parse_abc: "parseInt ''abc'' = None"
  by (simp add: parseInt_def isWhiteSpace_def isRadixDigit_def digitValue_def)

lemma parse_m5: "or_zero (parseInt ''-5'') = - 5"
  by (simp add: parseInt_def or_zero_def isWhiteSpace_def isRadixDigit_def digitValue_def radixValue_def)

text \<open>
  Claim C4 says that the stored quantity is never negative. The validation of line 75
  only asks for a quantity that is not blank, and \<^verbatim>\<open>parseInt\<close> reads a sign: the
  quantity \<^verbatim>\<open>-5\<close> is accepted and stored as \<open>- 5\<close>.
\<close>

theorem negative_quantity_counterexample:
  "accepts ((initial Map.empty)\<lparr>componentName := ''R2'', quantity := ''-5''\<rparr>) \<and>
   components (snd (handleSend 1700000000000 ''11/3/2026''
     ((initial Map.empty)\<lparr>componentName := ''R2'', quantity := ''-5''\<rparr>))) =
     JArr [JObj [(''id'', JNum 1700000000000), (''name'', JStr ''R2''),
                 (''quantity'', JNum (- 5)), (''dateAdded'', JStr ''11/3/2026'')]] \<and>
   \<not> (0::int) \<le> - 5"
  by (simp add: handleSend_def accepts_def newComponent_def Let_def initial_def trim_def
      isWhiteSpace_def parse_m5)

text \<open>
  Claim C4, amended. The stored quantity is the integer \<^verbatim>\<open>parseInt(quantity) || 0\<close>.
  It is \<open>0\<close> whenever the string is unparseable as an integer, it is not negative
  whenever the first character after the leading white space is not a minus sign, and it
  is not positive when that character is a minus sign.
\<close>

theorem stored_quantity:
  "Get (newComponent now today s) ''quantity'' = Some (JNum (or_zero (parseInt (quantity s)))) \<and>
   (parseInt (quantity s) = None \<longrightarrow> or_zero (parseInt (quantity s)) = 0) \<and>
   (take 1 (dropWhile isWhiteSpace (quantity s)) \<noteq> ''-'' \<longrightarrow>
      0 \<le> or_zero (parseInt (quantity s))) \<and>
   (take 1 (dropWhile isWhiteSpace (quantity s)) = ''-'' \<longrightarrow>
      or_zero (parseInt (quantity s)) \<le> 0)"
  using parseInt_sign [of "quantity s"]
  by (simp add: newComponent_def or_zero_def)

text \<open>The spec's example: the quantity \<^verbatim>\<open>abc\<close> is stored as \<open>0\<close>.\<close>

theorem stored_quantity_witness:
  "parseInt (quantity ((initial Map.empty)\<lparr>componentName := ''R2'', quantity := ''abc''\<rparr>)) = None \<and>
   Get (newComponent 1700000000000 ''11/3/2026''
          ((initial Map.empty)\<lparr>componentName := ''R2'', quantity := ''abc''\<rparr>)) ''quantity'' =
     Some (JNum 0)"
proof -
  let ?s = "(initial Map.empty)\<lparr>componentName := ''R2'', quantity := ''abc''\<rparr>"
  have nan: "parseInt (quantity ?s) = None"
    by (simp add: parse_abc)
  with stored_quantity [of 1700000000000 "''11/3/2026''" ?s]
  have "Get (newComponent 1700000000000 ''11/3/2026'' ?s) ''quantity'' = Some (JNum 0)"
    by simp
  with nan show ?thesis by blast
qed

section \<open>Identifiers\<close>

lemma created_ids_subset:
  "set (map (\<lambda>c. Get c ''id'') (created es s)) \<subseteq> (\<lambda>n. Some (JNum n)) ` set (clickTimes es)"
proof (induction es arbitrary: s)
  case Nil
  then show ?case by simp
next
  case (Cons e es)
  show ?case
  proof (cases e)
    case (ClickSend now today)
    with Cons.IH [of "step e s"] show ?thesis
      by (auto simp add: newComponent_def)
  qed (use Cons.IH [of "step e s"] in auto)
qed

text \<open>
  Claim C6 says that the identifiers of the records created in a session are pairwise
  distinct. The identifier is \<^verbatim>\<open>Date.now()\<close> and nothing else, so two submissions
  that read the same millisecond from the clock create two records with one identifier.
\<close>

theorem same_millisecond_counterexample:
  "map (\<lambda>c. Get c ''id'')
     (created [ChangeName ''R1'', ChangeQuantity ''1'', ClickSend 1700000000000 ''11/3/2026'',
               SendSettled False,
               ChangeName ''R2'', ChangeQuantity ''2'', ClickSend 1700000000000 ''11/3/2026'']
        (initial Map.empty)) = [Some (JNum 1700000000000), Some (JNum 1700000000000)] \<and>
   \<not> distinct [Some (JNum 1700000000000), Some (JNum 1700000000000)]"
  by (simp add: handleSend_def handleSend_resume_def accepts_def newComponent_def Let_def initial_def trim_def
      isWhiteSpace_def)

text \<open>
  Claim C6, amended. In every session in which the clicks on Send read pairwise distinct
  values from \<^verbatim>\<open>Date.now()\<close>, the identifiers of the created records are pairwise
  distinct.
\<close>

theorem created_ids_distinct:
  assumes "distinct (clickTimes es)"
  shows "distinct (map (\<lambda>c. Get c ''id'') (created es s))"
  using assms
proof (induction es arbitrary: s)
  case Nil
  then show ?case by simp
next
  case (Cons e es)
  show ?case
  proof (cases e)
    case (ClickSend now today)
    have fresh: "Some (JNum now) \<notin> set (map (\<lambda>c. Get c ''id'') (created es (step e s)))"
      using created_ids_subset [of es "step e s"] Cons.prems ClickSend by auto
    from Cons.prems ClickSend have "distinct (clickTimes es)" by simp
    from Cons.IH [OF this, of "step e s"] fresh ClickSend show ?thesis
      by (simp add: newComponent_def)
  qed (use Cons in auto)
qed

theorem created_ids_distinct_witness:
  "distinct (clickTimes [ChangeName ''R1'', ChangeQuantity ''1'', ClickSend 1700000000000 ''11/3/2026'',
               SendSettled False,
               ChangeName ''R2'', ChangeQuantity ''2'', ClickSend 1700000000001 ''11/3/2026'']) \<and>
   distinct (map (\<lambda>c. Get c ''id'')
     (created [ChangeName ''R1'', ChangeQuantity ''1'', ClickSend 1700000000000 ''11/3/2026'',
               SendSettled False,
               ChangeName ''R2'', ChangeQuantity ''2'', ClickSend 1700000000001 ''11/3/2026'']
        (initial Map.empty)))"
proof -
  let ?es = "[ChangeName ''R1'', ChangeQuantity ''1'', ClickSend 1700000000000 ''11/3/2026'',
               SendSettled False,
               ChangeName ''R2'', ChangeQuantity ''2'', ClickSend 1700000000001 ''11/3/2026'']"
  have times: "distinct (clickTimes ?es)" by simp
  from created_ids_distinct [OF times] times show ?thesis by blast
qed

section \<open>The exported file\<close>

lemma split_without_sep: "sep \<notin> set x \<Longrightarrow> split sep x = [x]"
  by (induction x) auto

lemma split_at_sep: "sep \<notin> set x \<Longrightarrow> split sep (x @ sep # r) = x # split sep r"
  by (induction x) (auto split: list.splits)

lemma first_of_split_join:
  "sep \<notin> set x \<Longrightarrow> take 1 (split sep (join [sep] (x # xs))) = [x]"
  by (cases xs) (simp_all add: split_without_sep split_at_sep)

lemma split_join:
  "xs \<noteq> [] \<Longrightarrow> \<forall>x\<in>set xs. sep \<notin> set x \<Longrightarrow> split sep (join [sep] xs) = xs"
proof (induction xs)
  case Nil
  then show ?case by simp
next
  case (Cons x xs)
  show ?case
  proof (cases xs)
    case Nil
    with Cons.prems show ?thesis by (simp add: split_without_sep)
  next
    case (Cons y ys)
    with Cons.IH Cons.prems show ?thesis by (simp add: split_at_sep)
  qed
qed

lemma digits_decimal: "set (digits n) \<subseteq> set ''0123456789''"
proof (induction n rule: digits.induct)
  case (1 n)
  have digit: "''0123456789'' ! k \<in> set ''0123456789''" if "k < 10" for k
    using that by (intro nth_mem) simp
  show ?case
  proof (cases "n < 10")
    case True
    with digit [of n] show ?thesis
      by (subst digits.simps) simp
  next
    case False
    have "n mod 10 < 10" by simp
    from digit [OF this] "1.IH" False show ?thesis
      by (subst digits.simps) simp
  qed
qed

lemma Number_toString_one_line: "CHR 0x0A \<notin> set (Number_toString q)"
  using digits_decimal [of "nat q"] digits_decimal [of "nat (- q)"]
  by (auto simp add: Number_toString_def)

lemma csvRow_of_record:
  \<open>Get c ''name'' = Some (JStr n) \<Longrightarrow> Get c ''quantity'' = Some (JNum q) \<Longrightarrow>
   Get c ''dateAdded'' = Some (JStr d) \<Longrightarrow>
   csvRow c = Some (''"'' @ n @ ''",'' @ Number_toString q @ '',"'' @ d @ ''"'')\<close>
  by (auto simp add: csvRow_def subst_def)

lemma csvRows_of_records:
  \<open>list_all2 (\<lambda>c (n, q, d). Get c ''name'' = Some (JStr n) \<and> Get c ''quantity'' = Some (JNum q) \<and>
      Get c ''dateAdded'' = Some (JStr d)) cs rs \<Longrightarrow>
   those (map csvRow cs) =
     Some (map (\<lambda>(n, q, d). ''"'' @ n @ ''",'' @ Number_toString q @ '',"'' @ d @ ''"'') rs)\<close>
  by (induction cs rs rule: list_all2_induct) (auto simp add: csvRow_of_record)

text \<open>
  Claim C7. On an empty list \<^verbatim>\<open>exportToCSV\<close> raises the alert and downloads
  nothing. On a list \<open>cs\<close> that is not empty and whose elements have a string
  \<^verbatim>\<open>name\<close>, a number \<^verbatim>\<open>quantity\<close> and a string \<^verbatim>\<open>dateAdded\<close>, it downloads
  a text made of the header and one row per record, in list order, joined by line feeds.
  Its first line is exactly the header, and when no name and no date holds a line feed,
  the lines of the text are the header and the rows.
\<close>

theorem exportToCSV_output:
  \<open>(components s = JArr [] \<longrightarrow> exportToCSV isoString s = Alert ''No components to export'') \<and>
   (components s = JArr cs \<and> cs \<noteq> [] \<and>
    list_all2 (\<lambda>c (n, q, d). Get c ''name'' = Some (JStr n) \<and> Get c ''quantity'' = Some (JNum q) \<and>
      Get c ''dateAdded'' = Some (JStr d)) cs rs \<longrightarrow>
    (\<exists>content.
       exportToCSV isoString s = Download (downloadName isoString) content \<and>
       content = join [CHR 0x0A] (''Component Name/Part No,Quantity,Date Added'' #
         map (\<lambda>(n, q, d). ''"'' @ n @ ''",'' @ Number_toString q @ '',"'' @ d @ ''"'') rs) \<and>
       take 1 (split (CHR 0x0A) content) = [''Component Name/Part No,Quantity,Date Added''] \<and>
       ((\<forall>(n, q, d)\<in>set rs. CHR 0x0A \<notin> set n \<and> CHR 0x0A \<notin> set d) \<longrightarrow>
        split (CHR 0x0A) content = ''Component Name/Part No,Quantity,Date Added'' #
          map (\<lambda>(n, q, d). ''"'' @ n @ ''",'' @ Number_toString q @ '',"'' @ d @ ''"'') rs)))\<close>
proof (intro conjI impI)
  assume "components s = JArr []"
  then show "exportToCSV isoString s = Alert ''No components to export''"
    by (simp add: exportToCSV_def Get_length_def)
next
  let ?header = "''Component Name/Part No,Quantity,Date Added''"
  let ?row = \<open>\<lambda>(n, q, d). ''"'' @ n @ ''",'' @ Number_toString q @ '',"'' @ d @ ''"''\<close>
  assume a: \<open>components s = JArr cs \<and> cs \<noteq> [] \<and>
    list_all2 (\<lambda>c (n, q, d). Get c ''name'' = Some (JStr n) \<and> Get c ''quantity'' = Some (JNum q) \<and>
      Get c ''dateAdded'' = Some (JStr d)) cs rs\<close>
  have rows: "those (map csvRow cs) = Some (map ?row rs)"
    by (rule csvRows_of_records) (use a in blast)
  have header: "join '','' csvHeaders = ?header"
    by (simp add: csvHeaders_def)
  have export: "exportToCSV isoString s =
      Download (downloadName isoString) (join [CHR 0x0A] (?header # map ?row rs))"
    using a rows by (simp add: exportToCSV_def Get_length_def header)
  have first: "take 1 (split (CHR 0x0A) (join [CHR 0x0A] (?header # map ?row rs))) = [?header]"
    by (rule first_of_split_join) simp
  have lines: "split (CHR 0x0A) (join [CHR 0x0A] (?header # map ?row rs)) = ?header # map ?row rs"
    if "\<forall>(n, q, d)\<in>set rs. CHR 0x0A \<notin> set n \<and> CHR 0x0A \<notin> set d"
  proof (rule split_join)
    show "?header # map ?row rs \<noteq> []" by simp
    show "\<forall>x\<in>set (?header # map ?row rs). CHR 0x0A \<notin> set x"
      using that Number_toString_one_line by auto
  qed
  from export first lines
  show \<open>\<exists>content.
       exportToCSV isoString s = Download (downloadName isoString) content \<and>
       content = join [CHR 0x0A] (''Component Name/Part No,Quantity,Date Added'' #
         map (\<lambda>(n, q, d). ''"'' @ n @ ''",'' @ Number_toString q @ '',"'' @ d @ ''"'') rs) \<and>
       take 1 (split (CHR 0x0A) content) = [''Component Name/Part No,Quantity,Date Added''] \<and>
       ((\<forall>(n, q, d)\<in>set rs. CHR 0x0A \<notin> set n \<and> CHR 0x0A \<notin> set d) \<longrightarrow>
        split (CHR 0x0A) content = ''Component Name/Part No,Quantity,Date Added'' #
          map (\<lambda>(n, q, d). ''"'' @ n @ ''",'' @ Number_toString q @ '',"'' @ d @ ''"'') rs)\<close>
    by blast
qed

text \<open>The export of an empty list, and of the one record of the spec's example.\<close>

theorem exportToCSV_output_witness:
  \<open>exportToCSV ''2026-11-03T10:00:00.000Z'' (initial Map.empty) =
     Alert ''No components to export'' \<and>
   exportToCSV ''2026-11-03T10:00:00.000Z''
     ((initial Map.empty)\<lparr>components :=
        JArr [JObj [(''id'', JNum 1700000000000), (''name'', JStr ''R1''),
                    (''quantity'', JNum 5), (''dateAdded'', JStr ''1/1/24'')]]\<rparr>) =
     Download ''components-2026-11-03.csv''
       (''Component Name/Part No,Quantity,Date Added'' @ [CHR 0x0A] @ ''"R1",5,"1/1/24"'')\<close>
proof -
  let ?c = "JObj [(''id'', JNum 1700000000000), (''name'', JStr ''R1''),
                  (''quantity'', JNum 5), (''dateAdded'', JStr ''1/1/24'')]"
  let ?s = "(initial Map.empty)\<lparr>components := JArr [?c]\<rparr>"
  have none: "components (initial Map.empty) = JArr []"
    by (simp add: initial_def)
  have one: "components ?s = JArr [?c] \<and> [?c] \<noteq> [] \<and>
    list_all2 (\<lambda>c (n, q, d). Get c ''name'' = Some (JStr n) \<and> Get c ''quantity'' = Some (JNum q) \<and>
      Get c ''dateAdded'' = Some (JStr d)) [?c] [(''R1'', 5, ''1/1/24'')]"
    by simp
  have alert: "exportToCSV ''2026-11-03T10:00:00.000Z'' (initial Map.empty) =
      Alert ''No components to export''"
    using exportToCSV_output [of "initial Map.empty" "''2026-11-03T10:00:00.000Z''" "[]" "[]"] none
    by blast
  from exportToCSV_output [of ?s "''2026-11-03T10:00:00.000Z''" "[?c]" "[(''R1'', 5, ''1/1/24'')]"] one
  obtain content where
    "exportToCSV ''2026-11-03T10:00:00.000Z'' ?s =
       Download (downloadName ''2026-11-03T10:00:00.000Z'') content"
    and "content = join [CHR 0x0A] (''Component Name/Part No,Quantity,Date Added'' #
         map (\<lambda>(n, q, d). [CHR 0x22] @ n @ [CHR 0x22] @ '','' @ Number_toString q @ '','' @
                [CHR 0x22] @ d @ [CHR 0x22]) [(''R1'', 5, ''1/1/24'')])"
    by auto
  then have "exportToCSV ''2026-11-03T10:00:00.000Z'' ?s =
     Download ''components-2026-11-03.csv''
       (''Component Name/Part No,Quantity,Date Added'' @ [CHR 0x0A] @
        [CHR 0x22] @ ''R1'' @ [CHR 0x22] @ '',5,'' @ [CHR 0x22] @ ''1/1/24'' @ [CHR 0x22])"
    by (simp add: downloadName_def Number_toString_def digits.simps)
  with alert show ?thesis
    by simp
qed

end
